theory Spec2Isabelle
  imports Main "HOL-Library.Word" "HOL-Library.Sublist" "HOL-Library.Char_ord"
    "HOL-Library.List_Lexorder"
begin

section \<open>Values of the host language\<close>

text \<open>
  The decoder of \<^verbatim>\<open>src/parsing.ts\<close> runs on Node.js. A \<^verbatim>\<open>Buffer\<close> is a list of
  8-bit words. A JavaScript string is a \<open>string\<close>: a list of 8-bit characters, one per
  byte, so \<^verbatim>\<open>Buffer.toString\<close> is modelled bytewise. That is what Node's UTF-8 decoder
  does on ASCII content (every delimiter, digit and field name of the format is ASCII);
  a byte above 127 stands for itself here, where Node would combine it with its
  neighbours into one code point or replace it.

  An exception is a value of \<open>error\<close>, and a function that can throw returns
  \<open>error + 'a\<close>. \<open>SignatureMismatch\<close> is the \<^verbatim>\<open>Error\<close> thrown by
  \<^verbatim>\<open>_parseSignature\<close>; \<open>RangeError\<close> is what \<^verbatim>\<open>Buffer.readUIntLE\<close> throws
  (ERR_OUT_OF_RANGE, ERR_BUFFER_OUT_OF_BOUNDS); \<open>TypeError\<close> is what the engine throws
  when a value that is not iterable is spread, or a property of \<^verbatim>\<open>undefined\<close> is read,
  or a value that is not a function is called. \<open>PrototypeWrite\<close> is not an exception: it
  marks a run in which \<^verbatim>\<open>extractNestedKeyValue\<close> assigns into a built-in object that
  it reached through the prototype chain (\<^verbatim>\<open>data[main][sub] = value\<close> with \<^verbatim>\<open>main\<close>
  inherited from \<^verbatim>\<open>Object.prototype\<close>). What such a write does to the rest of the
  program is outside this model, so the model stops there and says so.
\<close>

type_synonym byte = "8 word"
type_synonym buffer = "byte list"

datatype error = SignatureMismatch | RangeError | TypeError | PrototypeWrite

text \<open>
  \<open>andThen\<close> sequences two steps of which the first may throw; \<open>mapE\<close> is
  \<^verbatim>\<open>Array.prototype.map\<close> with a callback that may throw: the first exception ends
  the loop.
\<close>

definition andThen :: "error + 'a \<Rightarrow> ('a \<Rightarrow> error + 'b) \<Rightarrow> error + 'b" where
  "andThen r f = (case r of Inl e \<Rightarrow> Inl e | Inr x \<Rightarrow> f x)"

fun mapE :: "('a \<Rightarrow> error + 'b) \<Rightarrow> 'a list \<Rightarrow> error + 'b list" where
  "mapE f [] = Inr []"
| "mapE f (x # xs) = andThen (f x) (\<lambda>y. andThen (mapE f xs) (\<lambda>ys. Inr (y # ys)))"

text \<open>
  The numbers the decoder computes with are the results of \<^verbatim>\<open>parseInt\<close> and of
  \<^verbatim>\<open>readUIntLE\<close>: an integer or \<^verbatim>\<open>NaN\<close>. (A double is exact up to \<open>2^53\<close>; a longer
  digit string is rounded by the engine and not by this model. Such a number is no
  offset of a buffer Node can allocate.)
\<close>

datatype number = NaN | Number int

definition toString :: "buffer \<Rightarrow> string" where
  "toString buf = map (\<lambda>b. char_of (unat b)) buf"

text \<open>The bytes of a text: a concrete buffer is written as \<open>bytes_of\<close> of a string, with
  \<open>CHR 0x00\<close> for a byte that is no printable character.\<close>

definition bytes_of :: "string \<Rightarrow> buffer" where
  "bytes_of s = map of_char s"

text \<open>\<^verbatim>\<open>buf.subarray(start, end)\<close> for \<open>0 \<le> start \<le> end\<close>: both ends are clamped to the buffer.\<close>

definition subarray :: "buffer \<Rightarrow> nat \<Rightarrow> nat \<Rightarrow> buffer" where
  "subarray buf start end' = take (end' - start) (drop start buf)"

text \<open>The value of a little-endian byte sequence.\<close>

fun uintLE :: "byte list \<Rightarrow> nat" where
  "uintLE [] = 0"
| "uintLE (b # bs) = unat b + 256 * uintLE bs"

text \<open>
  \<^verbatim>\<open>buf.readUIntLE(offset, byteLength)\<close>. Node accepts \<open>1 \<le> byteLength \<le> 6\<close> and an
  integer offset with \<open>0 \<le> offset \<le> buf.length - byteLength\<close>; anything else, \<^verbatim>\<open>NaN\<close>
  included, throws a RangeError.
\<close>

definition readUIntLE :: "buffer \<Rightarrow> number \<Rightarrow> nat \<Rightarrow> error + nat" where
  "readUIntLE buf offset byteLength =
     (case offset of
        NaN \<Rightarrow> Inl RangeError
      | Number a \<Rightarrow>
          if byteLength < 1 \<or> 6 < byteLength then Inl RangeError
          else if a < 0 \<or> int (length buf) < a + int byteLength then Inl RangeError
          else Inr (uintLE (take byteLength (drop (nat a) buf))))"

section \<open>Block resolution: getContentAtAddress\<close>

text \<open>
  \<^verbatim>\<open>
  export function getContentAtAddress(buffer, address, byteLength): Buffer | null {
    if (address === 0) return null
    const blockLength = buffer.readUintLE(address, byteLength)
    const content = buffer.subarray(address + byteLength, address + byteLength + blockLength)
    return content
  }
  \<close>
  \<open>None\<close> is \<^verbatim>\<open>null\<close>. After a successful read the address is a natural number.
\<close>

definition getContentAtAddress :: "buffer \<Rightarrow> number \<Rightarrow> nat \<Rightarrow> error + buffer option" where
  "getContentAtAddress buffer address byteLength =
     (if address = Number 0 then Inr None
      else andThen (readUIntLE buffer address byteLength) (\<lambda>blockLength.
        (case address of
           NaN \<Rightarrow> Inl RangeError
         | Number a \<Rightarrow>
             Inr (Some (subarray buffer (nat a + byteLength) (nat a + byteLength + blockLength))))))"

section \<open>Plain objects\<close>

text \<open>
  A plain object is the list of its own enumerable properties in the order
  \<^verbatim>\<open>Object.keys\<close> and \<^verbatim>\<open>Object.entries\<close> give them: first the array-index keys
  (canonical decimal strings below \<open>2^32 - 1\<close>) in ascending order, then the other keys in
  the order they were created. Every plain object the decoder builds has
  \<^verbatim>\<open>Object.prototype\<close> as its prototype, so \<^verbatim>\<open>key in obj\<close> also holds for the twelve
  names that \<^verbatim>\<open>Object.prototype\<close> defines.
\<close>

type_synonym 'v object = "(string \<times> 'v) list"

definition is_digit :: "char \<Rightarrow> bool" where
  "is_digit c = (CHR ''0'' \<le> c \<and> c \<le> CHR ''9'')"

definition digit_value :: "char \<Rightarrow> nat" where
  "digit_value c =
     (if is_digit c then of_char c - 48
      else if CHR ''a'' \<le> c \<and> c \<le> CHR ''f'' then of_char c - 87
      else of_char c - 55)"

definition digits_value :: "nat \<Rightarrow> string \<Rightarrow> nat" where
  "digits_value radix ds = foldl (\<lambda>acc c. acc * radix + digit_value c) 0 ds"

definition is_array_index :: "string \<Rightarrow> bool" where
  "is_array_index k =
     (k \<noteq> [] \<and> list_all is_digit k \<and> (k = ''0'' \<or> hd k \<noteq> CHR ''0'') \<and>
      digits_value 10 k < 4294967295)"

definition index_before :: "string \<Rightarrow> string \<Rightarrow> bool" where
  "index_before k k' =
     (is_array_index k \<and>
      (is_array_index k' \<and> digits_value 10 k < digits_value 10 k' \<or> \<not> is_array_index k'))"

fun obj_insert :: "string \<Rightarrow> 'v \<Rightarrow> 'v object \<Rightarrow> 'v object" where
  "obj_insert k v [] = [(k, v)]"
| "obj_insert k v ((k', v') # rest) =
     (if index_before k k' then (k, v) # (k', v') # rest
      else (k', v') # obj_insert k v rest)"

text \<open>Defining or overwriting the own property \<open>k\<close>: an existing key keeps its place.\<close>

definition obj_set :: "string \<Rightarrow> 'v \<Rightarrow> 'v object \<Rightarrow> 'v object" where
  "obj_set k v obj =
     (if map_of obj k \<noteq> None then map (\<lambda>(k', v'). if k' = k then (k', v) else (k', v')) obj
      else obj_insert k v obj)"

text \<open>
  The assignment \<^verbatim>\<open>obj[k] = v\<close> on a plain object. It defines or overwrites an own
  property, except for the key \<^verbatim>\<open>__proto__\<close>: unless the object already has an own
  property of that name, the assignment runs the setter of \<^verbatim>\<open>Object.prototype\<close>, which
  ignores a string.
\<close>

definition obj_assign :: "string \<Rightarrow> 'v \<Rightarrow> 'v object \<Rightarrow> 'v object" where
  "obj_assign k v obj = (if k = ''__proto__'' \<and> map_of obj k = None then obj else obj_set k v obj)"

text \<open>The object literal \<^verbatim>\<open>{ ...base, ...extra }\<close>: the later properties win, each key keeps
  the place of its first definition.\<close>

definition obj_spread :: "'v object \<Rightarrow> 'v object \<Rightarrow> 'v object" where
  "obj_spread base extra = foldl (\<lambda>obj (k, v). obj_set k v obj) base extra"

definition object_prototype :: "string list" where
  "object_prototype =
     [''constructor'', ''__defineGetter__'', ''__defineSetter__'', ''hasOwnProperty'',
      ''__lookupGetter__'', ''__lookupSetter__'', ''isPrototypeOf'', ''propertyIsEnumerable'',
      ''toString'', ''valueOf'', ''__proto__'', ''toLocaleString'']"

text \<open>\<^verbatim>\<open>k in obj\<close>: an own property, or one inherited from \<^verbatim>\<open>Object.prototype\<close>.\<close>

definition js_in :: "string \<Rightarrow> 'v object \<Rightarrow> bool" where
  "js_in k obj = (map_of obj k \<noteq> None \<or> k \<in> set object_prototype)"

text \<open>\<^verbatim>\<open>Array.prototype.reduce\<close> with a callback that may throw.\<close>

fun reduceE :: "('a \<Rightarrow> 'b \<Rightarrow> error + 'a) \<Rightarrow> 'a \<Rightarrow> 'b list \<Rightarrow> error + 'a" where
  "reduceE f acc [] = Inr acc"
| "reduceE f acc (x # xs) = andThen (f acc x) (\<lambda>acc'. reduceE f acc' xs)"

section \<open>Tagged text: extractKeyValue and parseKeyValue\<close>

text \<open>
  \<^verbatim>\<open>/<([^:<>]+):([^:<>]+)>/gm\<close>. \<open>match_pair s\<close> tries the pattern at the start of \<open>s\<close>
  and gives the two groups and the text after the match. Both classes exclude the
  three delimiters, so the greedy runs are the only candidates: after a longest run of
  class characters the next character is a delimiter or the end, and a shorter run
  would have to be followed by a class character where the pattern wants a delimiter.
\<close>

definition kv_char :: "char \<Rightarrow> bool" where
  "kv_char c = (c \<noteq> CHR '':'' \<and> c \<noteq> CHR ''<'' \<and> c \<noteq> CHR ''>'')"

definition match_pair :: "string \<Rightarrow> ((string \<times> string) \<times> string) option" where
  "match_pair s =
     (case s of
        [] \<Rightarrow> None
      | c # r \<Rightarrow>
          if c = CHR ''<'' \<and> takeWhile kv_char r \<noteq> [] then
            (case dropWhile kv_char r of
               [] \<Rightarrow> None
             | c1 # r1 \<Rightarrow>
                 if c1 = CHR '':'' \<and> takeWhile kv_char r1 \<noteq> [] then
                   (case dropWhile kv_char r1 of
                      [] \<Rightarrow> None
                    | c2 # r2 \<Rightarrow>
                        if c2 = CHR ''>'' then Some ((takeWhile kv_char r, takeWhile kv_char r1), r2)
                        else None)
                 else None)
          else None)"

lemma match_pair_shorter: "match_pair s = Some (kv, rest) \<Longrightarrow> length rest < length s"
proof -
  have drop_le: "\<And>xs ys y. dropWhile kv_char xs = y # ys \<Longrightarrow> length ys < length xs"
  proof -
    fix xs ys :: string and y
    assume "dropWhile kv_char xs = y # ys"
    then have "Suc (length ys) = length (dropWhile kv_char xs)" by simp
    also have "\<dots> \<le> length xs" by (rule length_dropWhile_le)
    finally show "length ys < length xs" by simp
  qed
  assume "match_pair s = Some (kv, rest)"
  then show ?thesis
    by (auto simp: match_pair_def split: list.splits if_splits dest!: drop_le)
qed

text \<open>\<^verbatim>\<open>[...content.matchAll(pattern)]\<close>: the matches from left to right, none overlapping;
  where the pattern fails the search moves on by one character.\<close>

function matchAll_pairs :: "string \<Rightarrow> (string \<times> string) list" where
  "matchAll_pairs [] = []"
| "matchAll_pairs (c # cs) =
     (case match_pair (c # cs) of
        Some (kv, rest) \<Rightarrow> kv # matchAll_pairs rest
      | None \<Rightarrow> matchAll_pairs cs)"
  by pat_completeness auto
termination
  by (relation "measure length") (auto dest: match_pair_shorter)

text \<open>
  \<^verbatim>\<open>
  const data = pairs.reduce((acc, [_, key, value]) => {
    if (key in acc) {
      let newValue =
        typeof acc[key] === "string" ? [acc[key] as string, value] : [...acc[key], value]
      acc[key] = newValue
    } else {
      acc[key] = value
    }
    return acc
  }, {})
  \<close>
  A value of the record is a string or an array of strings. When \<^verbatim>\<open>key in acc\<close> holds
  through the prototype chain only, \<^verbatim>\<open>acc[key]\<close> is a built-in function or
  \<^verbatim>\<open>Object.prototype\<close> itself: it is no string and it is not iterable, so the spread
  throws a TypeError.
\<close>

datatype kv_value = Scalar string | Multi "string list"

definition kv_step :: "kv_value object \<Rightarrow> string \<times> string \<Rightarrow> error + kv_value object" where
  "kv_step acc kv =
     (case kv of (key, value) \<Rightarrow>
        if js_in key acc then
          (case map_of acc key of
             Some (Scalar s) \<Rightarrow> Inr (obj_set key (Multi [s, value]) acc)
           | Some (Multi vs) \<Rightarrow> Inr (obj_set key (Multi (vs @ [value])) acc)
           | None \<Rightarrow> Inl TypeError)
        else Inr (obj_set key (Scalar value) acc))"

definition extractKeyValue :: "string \<Rightarrow> error + kv_value object" where
  "extractKeyValue content = reduceE kv_step [] (matchAll_pairs content)"

text \<open>
  \<^verbatim>\<open>
  const content = getContentAtAddress(buffer, address, byteLength)
  if (content === null) return {}
  return extractKeyValue(content.toString())
  \<close>
\<close>

definition parseKeyValue :: "buffer \<Rightarrow> number \<Rightarrow> nat \<Rightarrow> error + kv_value object" where
  "parseKeyValue buffer address byteLength =
     andThen (getContentAtAddress buffer address byteLength) (\<lambda>content.
       (case content of
          None \<Rightarrow> Inr []
        | Some c \<Rightarrow> extractKeyValue (toString c)))"

section \<open>Key grouping: extractNestedKeyValue\<close>

text \<open>\<^verbatim>\<open>key.indexOf(delimiter)\<close>: the first index at which the delimiter starts, \<open>None\<close> for
  \<open>-1\<close>. The empty delimiter is found at index 0.\<close>

fun indexOf :: "string \<Rightarrow> string \<Rightarrow> nat option" where
  "indexOf [] d = (if d = [] then Some 0 else None)"
| "indexOf (c # cs) d = (if prefix d (c # cs) then Some 0 else map_option Suc (indexOf cs d))"

text \<open>
  \<^verbatim>\<open>
  const idx = key.indexOf(delimiter)
  if (idx > -1) {
    main = key.substring(0, idx)
    sub = key.substring(idx + 1)
  } else {
    for (const prefix of prefixes) {
      if (!key.startsWith(prefix)) continue
      main = prefix
      sub = key.substring(main.length)
      break
    }
  }
  \<close>
  \<open>None\<close> when \<^verbatim>\<open>main\<close> and \<^verbatim>\<open>sub\<close> stay undefined.
\<close>

definition main_sub :: "string \<Rightarrow> string list \<Rightarrow> string \<Rightarrow> (string \<times> string) option" where
  "main_sub delimiter prefixes' key =
     (case indexOf key delimiter of
        Some idx \<Rightarrow> Some (take idx key, drop (idx + 1) key)
      | None \<Rightarrow>
          (case find (\<lambda>p. prefix p key) prefixes' of
             Some p \<Rightarrow> Some (p, drop (length p) key)
           | None \<Rightarrow> None))"

text \<open>
  The body of the \<^verbatim>\<open>forEach\<close> over \<^verbatim>\<open>Object.entries(record)\<close>:
  \<^verbatim>\<open>
  if (typeof value !== "string") return
  ...
  if (!(main && sub)) return
  if (main in data) data[main][sub] = value
  else data[main] = { [sub]: value }
  \<close>
  The empty string is falsy. When \<^verbatim>\<open>main in data\<close> holds through the prototype chain
  only, the assignment goes into a built-in object: \<open>PrototypeWrite\<close>.
\<close>

definition nested_step ::
  "string \<Rightarrow> string list \<Rightarrow> string object object \<Rightarrow> string \<times> kv_value \<Rightarrow> error + string object object" where
  "nested_step delimiter prefixes' data entry =
     (case entry of (key, value) \<Rightarrow>
        (case value of
           Multi vs \<Rightarrow> Inr data
         | Scalar v \<Rightarrow>
             (case main_sub delimiter prefixes' key of
                None \<Rightarrow> Inr data
              | Some (main, sub) \<Rightarrow>
                  if main = [] \<or> sub = [] then Inr data
                  else if js_in main data then
                    (case map_of data main of
                       Some inner \<Rightarrow> Inr (obj_set main (obj_assign sub v inner) data)
                     | None \<Rightarrow> Inl PrototypeWrite)
                  else Inr (obj_set main [(sub, v)] data))))"

definition extractNestedKeyValue ::
  "kv_value object \<Rightarrow> string \<Rightarrow> string list \<Rightarrow> error + string object object" where
  "extractNestedKeyValue record' delimiter prefixes' =
     reduceE (nested_step delimiter prefixes') [] record'"

section \<open>parseInt\<close>

text \<open>
  \<^verbatim>\<open>parseInt(s)\<close> with no radix: leading white space is skipped, then an optional sign,
  then \<^verbatim>\<open>0x\<close> or \<^verbatim>\<open>0X\<close> selects base 16, then the longest run of digits of the base is
  read; no digit gives \<^verbatim>\<open>NaN\<close>. The white space of the byte model is TAB, LF, VT, FF, CR
  and the space.
\<close>

definition is_space :: "char \<Rightarrow> bool" where
  "is_space c = (c \<in> set [CHR 0x09, CHR 0x0A, CHR 0x0B, CHR 0x0C, CHR 0x0D, CHR 0x20])"

definition is_hex_digit :: "char \<Rightarrow> bool" where
  "is_hex_digit c =
     (is_digit c \<or> (CHR ''a'' \<le> c \<and> c \<le> CHR ''f'') \<or> (CHR ''A'' \<le> c \<and> c \<le> CHR ''F''))"

definition parseInt :: "string \<Rightarrow> number" where
  "parseInt s =
     (let s1 = dropWhile is_space s;
          negative = (take 1 s1 = ''-'');
          s2 = (if take 1 s1 = ''-'' \<or> take 1 s1 = ''+'' then drop 1 s1 else s1);
          hex = (take 2 s2 = ''0x'' \<or> take 2 s2 = ''0X'');
          s3 = (if hex then drop 2 s2 else s2);
          ds = (if hex then takeWhile is_hex_digit s3 else takeWhile is_digit s3);
          n = int (digits_value (if hex then 16 else 10) ds)
      in if ds = [] then NaN else Number (if negative then - n else n))"

text \<open>\<^verbatim>\<open>String(v)\<close> as \<^verbatim>\<open>parseInt\<close> applies it to its argument: an array is joined with
  commas, \<^verbatim>\<open>undefined\<close> becomes the text \<^verbatim>\<open>undefined\<close>.\<close>

fun join_comma :: "string list \<Rightarrow> string" where
  "join_comma [] = []"
| "join_comma [x] = x"
| "join_comma (x # y # ys) = x @ '','' @ join_comma (y # ys)"

definition String :: "kv_value option \<Rightarrow> string" where
  "String v = (case v of None \<Rightarrow> ''undefined'' | Some (Scalar s) \<Rightarrow> s | Some (Multi vs) \<Rightarrow> join_comma vs)"

text \<open>\<^verbatim>\<open>parseInt(v ?? d)\<close>.\<close>

definition parseIntOr :: "kv_value option \<Rightarrow> string \<Rightarrow> number" where
  "parseIntOr v d = (case v of None \<Rightarrow> parseInt d | Some x \<Rightarrow> parseInt (String (Some x)))"

section \<open>Layer metadata: extractLayerInfo\<close>

text \<open>
  \<^verbatim>\<open>/{(?<content>[^{}]+)}/gm\<close> and
  \<^verbatim>\<open>/"(?<key>[^"\[{}\]]+)"#"?(?<value>[^"\[{}\],]+)/gm\<close>, matched as the tagged-text
  pattern is. The optional quote before the value is taken when it is there: giving
  it back would start the value at a quote, which the value class excludes.
\<close>

definition not_brace :: "char \<Rightarrow> bool" where
  "not_brace c = (c \<noteq> CHR ''{'' \<and> c \<noteq> CHR ''}'')"

definition match_layer :: "string \<Rightarrow> (string \<times> string) option" where
  "match_layer s =
     (case s of
        [] \<Rightarrow> None
      | c # r \<Rightarrow>
          if c = CHR ''{'' \<and> takeWhile not_brace r \<noteq> [] then
            (case dropWhile not_brace r of
               [] \<Rightarrow> None
             | c1 # r1 \<Rightarrow> if c1 = CHR ''}'' then Some (takeWhile not_brace r, r1) else None)
          else None)"

definition dict_key_char :: "char \<Rightarrow> bool" where
  "dict_key_char c =
     (c \<noteq> CHR 0x22 \<and> c \<noteq> CHR ''['' \<and> c \<noteq> CHR ''{'' \<and> c \<noteq> CHR ''}'' \<and> c \<noteq> CHR '']'')"

definition dict_value_char :: "char \<Rightarrow> bool" where
  "dict_value_char c = (dict_key_char c \<and> c \<noteq> CHR '','')"

definition match_dict :: "string \<Rightarrow> ((string \<times> string) \<times> string) option" where
  "match_dict s =
     (case s of
        [] \<Rightarrow> None
      | c # r \<Rightarrow>
          if c = CHR 0x22 \<and> takeWhile dict_key_char r \<noteq> [] then
            (case dropWhile dict_key_char r of
               c1 # c2 # r2 \<Rightarrow>
                 if c1 = CHR 0x22 \<and> c2 = CHR ''#'' then
                   (let r3 = (if take 1 r2 = [CHR 0x22] then drop 1 r2 else r2) in
                    if takeWhile dict_value_char r3 \<noteq> [] then
                      Some ((takeWhile dict_key_char r, takeWhile dict_value_char r3),
                            dropWhile dict_value_char r3)
                    else None)
                 else None
             | _ \<Rightarrow> None)
          else None)"

lemma match_layer_shorter: "match_layer s = Some (x, rest) \<Longrightarrow> length rest < length s"
proof -
  have drop_le: "\<And>xs ys y. dropWhile not_brace xs = y # ys \<Longrightarrow> length ys < length xs"
  proof -
    fix xs ys :: string and y
    assume "dropWhile not_brace xs = y # ys"
    then have "Suc (length ys) = length (dropWhile not_brace xs)" by simp
    also have "\<dots> \<le> length xs" by (rule length_dropWhile_le)
    finally show "length ys < length xs" by simp
  qed
  assume "match_layer s = Some (x, rest)"
  then show ?thesis
    by (auto simp: match_layer_def split: list.splits if_splits dest!: drop_le)
qed

lemma match_dict_shorter: "match_dict s = Some (x, rest) \<Longrightarrow> length rest < length s"
proof -
  assume m: "match_dict s = Some (x, rest)"
  then obtain c r where s: "s = c # r" by (cases s) (auto simp: match_dict_def)
  from m s obtain c1 c2 r2 where d: "dropWhile dict_key_char r = c1 # c2 # r2"
    by (auto simp: match_dict_def split: list.splits if_splits)
  have "length (dropWhile dict_key_char r) \<le> length r" by (rule length_dropWhile_le)
  with d have r2: "length r2 < length r" by simp
  define r3 where "r3 = (if take 1 r2 = [CHR 0x22] then drop 1 r2 else r2)"
  have "length r3 \<le> length r2" by (simp add: r3_def)
  moreover have "length (dropWhile dict_value_char r3) \<le> length r3" by (rule length_dropWhile_le)
  moreover from m s d have "rest = dropWhile dict_value_char r3"
    by (auto simp: match_dict_def r3_def Let_def split: if_splits)
  ultimately show ?thesis using r2 s by simp
qed

function matchAll_layers :: "string \<Rightarrow> string list" where
  "matchAll_layers [] = []"
| "matchAll_layers (c # cs) =
     (case match_layer (c # cs) of
        Some (content, rest) \<Rightarrow> content # matchAll_layers rest
      | None \<Rightarrow> matchAll_layers cs)"
  by pat_completeness auto
termination
  by (relation "measure length") (auto dest: match_layer_shorter)

function matchAll_dict :: "string \<Rightarrow> (string \<times> string) list" where
  "matchAll_dict [] = []"
| "matchAll_dict (c # cs) =
     (case match_dict (c # cs) of
        Some (kv, rest) \<Rightarrow> kv # matchAll_dict rest
      | None \<Rightarrow> matchAll_dict cs)"
  by pat_completeness auto
termination
  by (relation "measure length") (auto dest: match_dict_shorter)

record ILayerInfo =
  layerId :: number
  name :: string
  isBackgroundLayer :: bool
  isAllowAdd :: bool
  isCurrentLayer :: bool
  isVisible :: bool
  isDeleted :: bool
  isAllowUp :: bool
  isAllowDown :: bool

text \<open>
  The pairs of one layer are collected with \<^verbatim>\<open>acc[key] = value\<close> (the last pair of a key
  wins), then
  \<^verbatim>\<open>
  layerId: parseInt(data.layerId ?? "0"),
  name: data.name ?? "Main layer",
  isBackgroundLayer: data.isBackgroundLayer === "true",
  ...
  \<close>
  The two \<^verbatim>\<open>throw\<close> statements of the source guard \<^verbatim>\<open>match.groups === undefined\<close>,
  which cannot hold for a pattern with named groups.
\<close>

definition layer_dict :: "string \<Rightarrow> string object" where
  "layer_dict content = foldl (\<lambda>acc (key, value). obj_assign key value acc) [] (matchAll_dict content)"

definition layerInfo :: "string object \<Rightarrow> ILayerInfo" where
  "layerInfo data =
     \<lparr> layerId = parseInt (case map_of data ''layerId'' of None \<Rightarrow> ''0'' | Some v \<Rightarrow> v),
       name = (case map_of data ''name'' of None \<Rightarrow> ''Main layer'' | Some v \<Rightarrow> v),
       isBackgroundLayer = (map_of data ''isBackgroundLayer'' = Some ''true''),
       isAllowAdd = (map_of data ''isAllowAdd'' = Some ''true''),
       isCurrentLayer = (map_of data ''isCurrentLayer'' = Some ''true''),
       isVisible = (map_of data ''isVisible'' = Some ''true''),
       isDeleted = (map_of data ''isDeleted'' = Some ''true''),
       isAllowUp = (map_of data ''isAllowUp'' = Some ''true''),
       isAllowDown = (map_of data ''isAllowDown'' = Some ''true'') \<rparr>"

definition extractLayerInfo :: "string \<Rightarrow> ILayerInfo list" where
  "extractLayerInfo content = map (\<lambda>c. layerInfo (layer_dict c)) (matchAll_layers content)"

section \<open>The document: class SupernoteX\<close>

text \<open>
  A layer, a keyword and a title are objects with string (or string array) properties
  and one \<^verbatim>\<open>bitmapBuffer\<close>: \<open>props\<close> holds the former in property order. A page has
  string properties, five layers, the layer metadata, the layer order and the buffer of
  its paths. The footer is a two-level object. The interfaces themselves
  (\<^verbatim>\<open>~/format\<close>) are not part of the sources; the shapes are read off the object
  literals that \<^verbatim>\<open>parsing.ts\<close> builds.
\<close>

record entry =
  props :: "kv_value object"
  bitmapBuffer :: "buffer option"

type_synonym ILayer = entry
type_synonym IKeyword = entry
type_synonym ITitle = entry
type_synonym IHeader = "kv_value object"
type_synonym IFooter = "kv_value object object"

record IPage =
  page_fields :: "kv_value object"
  MAINLAYER :: ILayer
  LAYER1 :: ILayer
  LAYER2 :: ILayer
  LAYER3 :: ILayer
  BGLAYER :: ILayer
  LAYERINFO :: "ILayerInfo list"
  LAYERSEQ :: "string list"
  totalPathBuffer :: "buffer option"

record SupernoteX =
  pageWidth :: nat
  pageHeight :: nat
  addressSize :: nat
  lengthFieldSize :: nat
  defaultLayers :: "string list"
  signature :: string
  footer :: IFooter
  header :: IHeader
  pages :: "IPage list"
  cover :: "buffer option option"
  keywords' :: "IKeyword list object"
  titles :: "ITitle list object"

text \<open>The constructor sets \<^verbatim>\<open>this.addressSize = 4\<close> and \<^verbatim>\<open>this.lengthFieldSize = 4\<close>
  before it parses.\<close>

definition the_addressSize :: nat where
  "the_addressSize = 4"

definition the_lengthFieldSize :: nat where
  "the_lengthFieldSize = 4"

text \<open>Removing a property that a later entry of an object literal overwrites with a value
  of another type (the record field of that name holds it).\<close>

definition obj_delete :: "string \<Rightarrow> 'v object \<Rightarrow> 'v object" where
  "obj_delete k obj = filter (\<lambda>(k', v). k' \<noteq> k) obj"

text \<open>
  \<^verbatim>\<open>
  const pattern = /^noteSN_FILE_VER_\d{8}/
  const content = buffer.toString(undefined, 0, 24)
  const isMatch = pattern.test(content)
  if (!isMatch) throw new Error("Cannot parse this file. Signature doesn't match.")
  this.signature = content
  \<close>
\<close>

definition signature_test :: "string \<Rightarrow> bool" where
  "signature_test content =
     (take 16 content = ''noteSN_FILE_VER_'' \<and>
      length (take 8 (drop 16 content)) = 8 \<and> list_all is_digit (take 8 (drop 16 content)))"

definition parseSignature :: "buffer \<Rightarrow> error + string" where
  "parseSignature buffer =
     (let content = toString (subarray buffer 0 24)
      in if signature_test content then Inr content else Inl SignatureMismatch)"

text \<open>
  \<^verbatim>\<open>
  const chunk = buffer.subarray(buffer.length - this.addressSize)
  const address = chunk.readUIntLE(0, this.addressSize)
  const data = parseKeyValue(buffer, address, this.lengthFieldSize)
  const nested = extractNestedKeyValue(data, "_", ["PAGE"])
  this.footer = { FILE: { FEATURE: "24" }, COVER: { "0": "0" }, KEYWORD: {}, TITLE: {},
                  STYLE: {}, PAGE: {}, ...nested }
  \<close>
  \<^verbatim>\<open>subarray\<close> with one argument: a negative start counts from the end.
\<close>

definition subarray_from :: "buffer \<Rightarrow> int \<Rightarrow> buffer" where
  "subarray_from buf start =
     (if start < 0 then drop (nat (int (length buf) + start)) buf else drop (nat start) buf)"

definition footer_defaults :: IFooter where
  "footer_defaults =
     [(''FILE'', [(''FEATURE'', Scalar ''24'')]), (''COVER'', [(''0'', Scalar ''0'')]),
      (''KEYWORD'', []), (''TITLE'', []), (''STYLE'', []), (''PAGE'', [])]"

definition as_values :: "string object object \<Rightarrow> IFooter" where
  "as_values nested = map (\<lambda>(g, inner). (g, map (\<lambda>(k, v). (k, Scalar v)) inner)) nested"

definition parseFooter :: "buffer \<Rightarrow> error + IFooter" where
  "parseFooter buffer =
     andThen (readUIntLE (subarray_from buffer (int (length buffer) - int the_addressSize))
                (Number 0) the_addressSize) (\<lambda>address.
     andThen (parseKeyValue buffer (Number (int address)) the_lengthFieldSize) (\<lambda>data.
     andThen (extractNestedKeyValue data ''_'' [''PAGE'']) (\<lambda>nested.
       Inr (obj_spread footer_defaults (as_values nested)))))"

text \<open>
  \<^verbatim>\<open>
  const address = this.footer.FILE?.FEATURE ? parseInt(this.footer.FILE.FEATURE) : 24
  const data = parseKeyValue(buffer, address, this.lengthFieldSize)
  this.header = { MODULE_LABEL: "0", ..., APP_VERSION: "0", ...data }
  \<close>
  A string is truthy when it is not empty, an array always.
\<close>

definition truthy :: "kv_value option \<Rightarrow> bool" where
  "truthy v = (case v of None \<Rightarrow> False | Some (Scalar s) \<Rightarrow> s \<noteq> [] | Some (Multi vs) \<Rightarrow> True)"

definition get2 :: "IFooter \<Rightarrow> string \<Rightarrow> string \<Rightarrow> kv_value option" where
  "get2 ft g k = (case map_of ft g of None \<Rightarrow> None | Some inner \<Rightarrow> map_of inner k)"

definition header_defaults :: IHeader where
  "header_defaults =
     [(''MODULE_LABEL'', Scalar ''0''), (''FILE_TYPE'', Scalar ''0''),
      (''APPLY_EQUIPMENT'', Scalar ''0''), (''FINAL_OPERATION_PAGE'', Scalar ''0''),
      (''FINAL_OPERATION_LAYER'', Scalar ''0''), (''ORIGINAL_STYLE'', Scalar ''0''),
      (''ORIGINAL_STYLEMD5'', Scalar ''0''), (''DEVICE_DPI'', Scalar ''0''),
      (''SOFT_DPI'', Scalar ''0''), (''FILE_PARSE_TYPE'', Scalar ''0''),
      (''RATTA_ETMD'', Scalar ''0''), (''APP_VERSION'', Scalar ''0'')]"

definition parseHeader :: "buffer \<Rightarrow> IFooter \<Rightarrow> error + IHeader" where
  "parseHeader buffer ft =
     (let address = (if truthy (get2 ft ''FILE'' ''FEATURE'')
                     then parseInt (String (get2 ft ''FILE'' ''FEATURE'')) else Number 24)
      in andThen (parseKeyValue buffer address the_lengthFieldSize) (\<lambda>data.
           Inr (obj_spread header_defaults data)))"

text \<open>
  \<^verbatim>\<open>
  _parseLayer(buffer, address) {
    const data = parseKeyValue(buffer, address, this.lengthFieldSize)
    const bitmapBuffer = getContentAtAddress(buffer,
      parseInt((data.LAYERBITMAP as string) ?? "0"), this.lengthFieldSize)
    return { LAYERTYPE: "NOTE", LAYERPROTOCOL: "RATTA_RLE", LAYERNAME: "MAINLAYER",
             LAYERPATH: "0", LAYERBITMAP: "0", LAYERVECTORGRAPH: "0", LAYERRECOGN: "0",
             ...data, bitmapBuffer }
  }
  \<close>
\<close>

definition layer_defaults :: "kv_value object" where
  "layer_defaults =
     [(''LAYERTYPE'', Scalar ''NOTE''), (''LAYERPROTOCOL'', Scalar ''RATTA_RLE''),
      (''LAYERNAME'', Scalar ''MAINLAYER''), (''LAYERPATH'', Scalar ''0''),
      (''LAYERBITMAP'', Scalar ''0''), (''LAYERVECTORGRAPH'', Scalar ''0''),
      (''LAYERRECOGN'', Scalar ''0'')]"

definition parseLayer :: "buffer \<Rightarrow> number \<Rightarrow> error + ILayer" where
  "parseLayer buffer address =
     andThen (parseKeyValue buffer address the_lengthFieldSize) (\<lambda>data.
     andThen (getContentAtAddress buffer (parseIntOr (map_of data ''LAYERBITMAP'') ''0'')
                the_lengthFieldSize) (\<lambda>bitmap.
       Inr \<lparr> props = obj_delete ''bitmapBuffer'' (obj_spread layer_defaults data),
             bitmapBuffer = bitmap \<rparr>))"

text \<open>
  One page, the callback of \<^verbatim>\<open>Object.keys(this.footer.PAGE).sort().map\<close>:
  \<^verbatim>\<open>
  const address = parseInt(this.footer.PAGE[idx])
  const data = parseKeyValue(buffer, address, this.lengthFieldSize)
  return {
    PAGESTYLE: "0", PAGESTYLEMD5: "0", LAYERSWITCH: "0", TOTALPATH: "0", THUMBNAILTYPE: "0",
    ...data,
    MAINLAYER: this._parseLayer(buffer, parseInt((data.MAINLAYER as string) ?? "0")),
    LAYER1: ..., LAYER2: ..., LAYER3: ..., BGLAYER: ...,
    LAYERINFO: extractLayerInfo(data["LAYERINFO"] as string),
    LAYERSEQ: (data["LAYERSEQ"] as string).split(",") as ILayerNames[],
    totalPathBuffer: getContentAtAddress(buffer,
      parseInt((data.TOTALPATH as string) ?? "0"), this.lengthFieldSize),
  }
  \<close>
  The properties are evaluated in this order. \<^verbatim>\<open>data["LAYERINFO"]\<close> and
  \<^verbatim>\<open>data["LAYERSEQ"]\<close> have no fallback: \<^verbatim>\<open>matchAll\<close> and \<^verbatim>\<open>split\<close> exist on a string
  only, so \<^verbatim>\<open>undefined\<close> and an array both end in a TypeError.
\<close>

fun split_comma :: "string \<Rightarrow> string list" where
  "split_comma [] = [[]]"
| "split_comma (c # cs) =
     (if c = CHR '','' then [] # split_comma cs
      else (case split_comma cs of [] \<Rightarrow> [[c]] | w # ws \<Rightarrow> (c # w) # ws))"

definition string_only :: "kv_value option \<Rightarrow> error + string" where
  "string_only v =
     (case v of
        Some (Scalar s) \<Rightarrow> Inr s
      | Some (Multi vs) \<Rightarrow> Inl TypeError
      | None \<Rightarrow> Inl TypeError)"

definition page_defaults :: "kv_value object" where
  "page_defaults =
     [(''PAGESTYLE'', Scalar ''0''), (''PAGESTYLEMD5'', Scalar ''0''),
      (''LAYERSWITCH'', Scalar ''0''), (''TOTALPATH'', Scalar ''0''),
      (''THUMBNAILTYPE'', Scalar ''0'')]"

definition page_typed_keys :: "string list" where
  "page_typed_keys =
     [''MAINLAYER'', ''LAYER1'', ''LAYER2'', ''LAYER3'', ''BGLAYER'', ''LAYERINFO'',
      ''LAYERSEQ'', ''totalPathBuffer'']"

definition parsePage :: "buffer \<Rightarrow> kv_value object \<Rightarrow> string \<Rightarrow> error + IPage" where
  "parsePage buffer pageGroup idx =
     andThen (parseKeyValue buffer (parseInt (String (map_of pageGroup idx))) the_lengthFieldSize) (\<lambda>data.
     andThen (parseLayer buffer (parseIntOr (map_of data ''MAINLAYER'') ''0'')) (\<lambda>mainlayer.
     andThen (parseLayer buffer (parseIntOr (map_of data ''LAYER1'') ''0'')) (\<lambda>layer1.
     andThen (parseLayer buffer (parseIntOr (map_of data ''LAYER2'') ''0'')) (\<lambda>layer2.
     andThen (parseLayer buffer (parseIntOr (map_of data ''LAYER3'') ''0'')) (\<lambda>layer3.
     andThen (parseLayer buffer (parseIntOr (map_of data ''BGLAYER'') ''0'')) (\<lambda>bglayer.
     andThen (string_only (map_of data ''LAYERINFO'')) (\<lambda>layerinfo.
     andThen (string_only (map_of data ''LAYERSEQ'')) (\<lambda>layerseq.
     andThen (getContentAtAddress buffer (parseIntOr (map_of data ''TOTALPATH'') ''0'')
                the_lengthFieldSize) (\<lambda>totalPath.
       Inr \<lparr> page_fields = foldr obj_delete page_typed_keys (obj_spread page_defaults data),
             MAINLAYER = mainlayer, LAYER1 = layer1, LAYER2 = layer2, LAYER3 = layer3,
             BGLAYER = bglayer, LAYERINFO = extractLayerInfo layerinfo,
             LAYERSEQ = split_comma layerseq, totalPathBuffer = totalPath \<rparr>)))))))))"

text \<open>\<^verbatim>\<open>Object.keys(undefined)\<close> throws a TypeError; the default sort orders strings by
  their code units.\<close>

definition parsePages :: "buffer \<Rightarrow> IFooter \<Rightarrow> error + IPage list" where
  "parsePages buffer ft =
     (case map_of ft ''PAGE'' of
        None \<Rightarrow> Inl TypeError
      | Some pageGroup \<Rightarrow> mapE (parsePage buffer pageGroup) (sort (map fst pageGroup)))"

text \<open>
  \<^verbatim>\<open>
  const address = parseInt(this.footer.COVER["0"] ?? this.footer.COVER["1"])
  if (address && address > 0) {
    const bitmapBuffer = getContentAtAddress(buffer, address, this.lengthFieldSize)
    this.cover = { bitmapBuffer }
  }
  return this.cover
  \<close>
  \<open>None\<close> is the cover left \<^verbatim>\<open>undefined\<close>.
\<close>

definition parseCover :: "buffer \<Rightarrow> IFooter \<Rightarrow> error + buffer option option" where
  "parseCover buffer ft =
     (case map_of ft ''COVER'' of
        None \<Rightarrow> Inl TypeError
      | Some coverGroup \<Rightarrow>
          (case parseInt (String (case map_of coverGroup ''0'' of
                                    Some v \<Rightarrow> Some v
                                  | None \<Rightarrow> map_of coverGroup ''1'')) of
             NaN \<Rightarrow> Inr None
           | Number a \<Rightarrow>
               if 0 < a then
                 andThen (getContentAtAddress buffer (Number a) the_lengthFieldSize) (\<lambda>bitmap.
                   Inr (Some bitmap))
               else Inr None))"

text \<open>
  \<^verbatim>\<open>
  _parseKeyword(buffer, address) {
    const data = parseKeyValue(buffer, address, this.lengthFieldSize)
    const bitmapBuffer = getContentAtAddress(buffer,
      parseInt((data.KEYWORDSITE as string) ?? "0"), this.lengthFieldSize)
    const keyword = { KEYWORDSEQNO: "0", KEYWORDPAGE: "1", KEYWORDRECT: ["0", "0", "0", "0"],
      KEYWORDRECTORI: ["0", "0", "0", "0"], KEYWORDSITE: "0", KEYWORDLEN: "0", KEYWORD: "",
      bitmapBuffer }
    return keyword
  }
  \<close>
  The literal has no \<^verbatim>\<open>...data\<close>.
\<close>

definition keyword_defaults :: "kv_value object" where
  "keyword_defaults =
     [(''KEYWORDSEQNO'', Scalar ''0''), (''KEYWORDPAGE'', Scalar ''1''),
      (''KEYWORDRECT'', Multi [''0'', ''0'', ''0'', ''0'']),
      (''KEYWORDRECTORI'', Multi [''0'', ''0'', ''0'', ''0'']),
      (''KEYWORDSITE'', Scalar ''0''), (''KEYWORDLEN'', Scalar ''0''), (''KEYWORD'', Scalar [])]"

definition parseKeyword :: "buffer \<Rightarrow> number \<Rightarrow> error + IKeyword" where
  "parseKeyword buffer address =
     andThen (parseKeyValue buffer address the_lengthFieldSize) (\<lambda>data.
     andThen (getContentAtAddress buffer (parseIntOr (map_of data ''KEYWORDSITE'') ''0'')
                the_lengthFieldSize) (\<lambda>bitmap.
       Inr \<lparr> props = keyword_defaults, bitmapBuffer = bitmap \<rparr>))"

text \<open>
  \<^verbatim>\<open>
  _parseTitle(buffer, address) {
    const data = parseKeyValue(buffer, address, this.lengthFieldSize)
    const bitmapBuffer = getContentAtAddress(buffer,
      parseInt((data.TITLEBITMAP as string) ?? "0"), this.lengthFieldSize)
    const title = { TITLESEQNO: "0", TITLELEVEL: "1", TITLERECT: ["0", "0", "0", "0"],
      TITLERECTORI: ["0", "0", "0", "0"], TITLEBITMAP: "0", TITLEPROTOCOL: "RATTA_RLE",
      TITLESTYLE: "1000254", ...data, bitmapBuffer }
    return title
  }
  \<close>
\<close>

definition title_defaults :: "kv_value object" where
  "title_defaults =
     [(''TITLESEQNO'', Scalar ''0''), (''TITLELEVEL'', Scalar ''1''),
      (''TITLERECT'', Multi [''0'', ''0'', ''0'', ''0'']),
      (''TITLERECTORI'', Multi [''0'', ''0'', ''0'', ''0'']),
      (''TITLEBITMAP'', Scalar ''0''), (''TITLEPROTOCOL'', Scalar ''RATTA_RLE''),
      (''TITLESTYLE'', Scalar ''1000254'')]"

definition parseTitle :: "buffer \<Rightarrow> number \<Rightarrow> error + ITitle" where
  "parseTitle buffer address =
     andThen (parseKeyValue buffer address the_lengthFieldSize) (\<lambda>data.
     andThen (getContentAtAddress buffer (parseIntOr (map_of data ''TITLEBITMAP'') ''0'')
                the_lengthFieldSize) (\<lambda>bitmap.
       Inr \<lparr> props = obj_delete ''bitmapBuffer'' (obj_spread title_defaults data),
             bitmapBuffer = bitmap \<rparr>))"

text \<open>
  \<^verbatim>\<open>_parseKeywords\<close> and \<^verbatim>\<open>_parseTitles\<close> are the same loop over the entries of a
  footer group, with \<^verbatim>\<open>_parseKeyword\<close> or \<^verbatim>\<open>_parseTitle\<close> as \<open>parseOne\<close>:
  \<^verbatim>\<open>
  this.keywords = {}
  Object.entries(this.footer.KEYWORD).forEach(([key, value]) => {
    if (!(key in this.keywords)) this.keywords[key] = []
    if (typeof value === "string")
      this.keywords[key].push(this._parseKeyword(buffer, parseInt(value)))
    else
      value.forEach((address) =>
        this.keywords[key].push(this._parseKeyword(buffer, parseInt(address))))
  })
  \<close>
  In \<^verbatim>\<open>this.keywords[key].push(e)\<close> the argument is evaluated before the call. For a key
  that is \<^verbatim>\<open>in\<close> the object through the prototype chain no list is created, and
  \<^verbatim>\<open>push\<close> is not a function of what \<^verbatim>\<open>this.keywords[key]\<close> then is: a TypeError.
\<close>

definition push_entry :: "string \<Rightarrow> entry \<Rightarrow> entry list object \<Rightarrow> error + entry list object" where
  "push_entry key e acc =
     (case map_of acc key of
        Some es \<Rightarrow> Inr (obj_set key (es @ [e]) acc)
      | None \<Rightarrow> Inl TypeError)"

definition entries_step ::
  "(number \<Rightarrow> error + entry) \<Rightarrow> entry list object \<Rightarrow> string \<times> kv_value \<Rightarrow> error + entry list object" where
  "entries_step parseOne acc kv =
     (case kv of (key, value) \<Rightarrow>
        (let acc1 = (if js_in key acc then acc else obj_assign key [] acc) in
         (case value of
            Scalar s \<Rightarrow> andThen (parseOne (parseInt s)) (\<lambda>e. push_entry key e acc1)
          | Multi vs \<Rightarrow>
              reduceE (\<lambda>acc2 address. andThen (parseOne (parseInt address)) (\<lambda>e. push_entry key e acc2))
                acc1 vs)))"

definition parseEntries ::
  "(number \<Rightarrow> error + entry) \<Rightarrow> IFooter \<Rightarrow> string \<Rightarrow> error + entry list object" where
  "parseEntries parseOne ft g =
     (case map_of ft g of
        None \<Rightarrow> Inl TypeError
      | Some grp \<Rightarrow> reduceE (entries_step parseOne) [] grp)"

definition parseKeywords :: "buffer \<Rightarrow> IFooter \<Rightarrow> error + IKeyword list object" where
  "parseKeywords buffer ft = parseEntries (parseKeyword buffer) ft ''KEYWORD''"

definition parseTitles :: "buffer \<Rightarrow> IFooter \<Rightarrow> error + ITitle list object" where
  "parseTitles buffer ft = parseEntries (parseTitle buffer) ft ''TITLE''"

text \<open>
  The constructor and \<^verbatim>\<open>_parseBuffer\<close>: the seven stages in order. An exception of any
  stage leaves the constructor, and the caller gets no object.
\<close>

definition parseBuffer :: "buffer \<Rightarrow> error + SupernoteX" where
  "parseBuffer buffer =
     andThen (parseSignature buffer) (\<lambda>sig.
     andThen (parseFooter buffer) (\<lambda>ft.
     andThen (parseHeader buffer ft) (\<lambda>hd.
     andThen (parsePages buffer ft) (\<lambda>pgs.
     andThen (parseCover buffer ft) (\<lambda>cv.
     andThen (parseKeywords buffer ft) (\<lambda>kws.
     andThen (parseTitles buffer ft) (\<lambda>tts.
       Inr \<lparr> pageWidth = 1404, pageHeight = 1872, addressSize = the_addressSize,
             lengthFieldSize = the_lengthFieldSize,
             defaultLayers = [''MAINLAYER'', ''LAYER1'', ''LAYER2'', ''LAYER3'', ''BGLAYER''],
             signature = sig, footer = ft, header = hd, pages = pgs, cover = cv,
             keywords' = kws, titles = tts \<rparr>)))))))"

section \<open>Predicates and sample files used by the results\<close>


text \<open>
  A file with one keyword. Offsets: the signature at 0, an empty header block at 24, the
  keyword block \<^verbatim>\<open><KEYWORDPAGE:3>\<close> at 28, the footer block \<^verbatim>\<open><KEYWORD_5:28>\<close> at 47 and
  the footer offset 47 in the last four bytes.
\<close>

definition keyword_file :: buffer where
  "keyword_file = bytes_of
     (''noteSN_FILE_VER_20230101'' @
      [CHR 0x00, CHR 0x00, CHR 0x00, CHR 0x00] @
      [CHR 0x0F, CHR 0x00, CHR 0x00, CHR 0x00] @ ''<KEYWORDPAGE:3>'' @
      [CHR 0x0E, CHR 0x00, CHR 0x00, CHR 0x00] @ ''<KEYWORD_5:28>'' @
      [CHR 0x2F, CHR 0x00, CHR 0x00, CHR 0x00])"

text \<open>The raw value of a field in a layer group: the value of the last pair of the group
  with that key.\<close>

definition raw_value :: "string \<Rightarrow> string \<Rightarrow> string option" where
  "raw_value g k = map_of (rev (matchAll_dict g)) k"




text \<open>The values that the matches of a text give a key, in the order of the text, and the
  record value the claim on \<^verbatim>\<open>extractKeyValue\<close> promises for them: none, a scalar, or the
  list. A key is an own key when \<^verbatim>\<open>Object.prototype\<close> does not define it.\<close>

definition values_of :: "string \<Rightarrow> (string \<times> string) list \<Rightarrow> string list" where
  "values_of K pairs = map snd (filter (\<lambda>(k, v). k = K) pairs)"

definition as_value :: "string list \<Rightarrow> kv_value option" where
  "as_value vs = (case vs of [] \<Rightarrow> None | [v] \<Rightarrow> Some (Scalar v) | v # w # ws \<Rightarrow> Some (Multi vs))"

definition own_key :: "string \<times> string \<Rightarrow> bool" where
  "own_key kv = (fst kv \<notin> set object_prototype)"

section \<open>Sequencing and loops\<close>

lemma andThen_Inl: "andThen r f = Inl e \<Longrightarrow> r = Inl e \<or> (\<exists>x. r = Inr x \<and> f x = Inl e)"
  by (cases r) (simp_all add: andThen_def)

lemma andThen_Inr: "andThen r f = Inr y \<Longrightarrow> \<exists>x. r = Inr x \<and> f x = Inr y"
  by (cases r) (simp_all add: andThen_def)

lemma reduceE_error:
  assumes "\<And>acc x e. f acc x = Inl e \<Longrightarrow> P e"
  shows "reduceE f acc xs = Inl e \<Longrightarrow> P e"
proof (induction xs arbitrary: acc)
  case Nil
  then show ?case by simp
next
  case (Cons x xs)
  from Cons.prems have "f acc x = Inl e \<or> (\<exists>acc'. f acc x = Inr acc' \<and> reduceE f acc' xs = Inl e)"
    by (auto dest: andThen_Inl)
  then show ?case using assms Cons.IH by blast
qed

lemma mapE_error:
  assumes "\<And>x e. f x = Inl e \<Longrightarrow> P e"
  shows "mapE f xs = Inl e \<Longrightarrow> P e"
proof (induction xs arbitrary: e)
  case Nil
  then show ?case by simp
next
  case (Cons x xs)
  from Cons.prems have "f x = Inl e \<or> mapE f xs = Inl e"
    by (auto dest!: andThen_Inl)
  then show ?case using assms Cons.IH by blast
qed



section \<open>Plain objects\<close>

lemma set_obj_insert: "set (obj_insert k v obj) = insert (k, v) (set obj)"
  by (induction k v obj rule: obj_insert.induct) auto






lemma map_of_obj_insert:
  "map_of obj k = None \<Longrightarrow> map_of (obj_insert k v obj) = (map_of obj)(k \<mapsto> v)"
  by (induction k v obj rule: obj_insert.induct) (auto simp: fun_upd_twist split: if_splits)

lemma map_of_replace:
  "map_of (map (\<lambda>(k', v'). if k' = k then (k', v) else (k', v')) obj) x =
     (if x = k then map_option (\<lambda>_. v) (map_of obj k) else map_of obj x)"
  by (induction obj) auto

lemma map_of_obj_set: "map_of (obj_set k v obj) = (map_of obj)(k \<mapsto> v)"
  by (auto simp: obj_set_def map_of_obj_insert map_of_replace fun_eq_iff)

lemma map_of_obj_assign:
  "k' \<noteq> ''__proto__'' \<Longrightarrow>
   map_of (obj_assign k v obj) k' = (if k' = k then Some v else map_of obj k')"
  by (auto simp: obj_assign_def map_of_obj_set)

lemma keys_obj_insert: "map_of obj k = None \<Longrightarrow> distinct (map fst obj) \<Longrightarrow> distinct (map fst (obj_insert k v obj))"
proof (induction k v obj rule: obj_insert.induct)
  case (1 k v)
  then show ?case by simp
next
  case (2 k v k' v' rest)
  then have "k \<noteq> k'" by (auto split: if_splits)
  moreover from 2 have "map_of rest k = None" by (auto split: if_splits)
  moreover then have "k \<notin> fst ` set rest" by (simp add: map_of_eq_None_iff)
  ultimately show ?case using 2 by (auto simp: set_obj_insert)
qed

lemma keys_replace:
  "map (fst \<circ> (\<lambda>(k', v'). if k' = k then (k', v) else (k', v'))) obj = map fst obj"
  by (induction obj) auto

lemma distinct_obj_set: "distinct (map fst obj) \<Longrightarrow> distinct (map fst (obj_set k v obj))"
  by (cases "map_of obj k") (simp_all add: obj_set_def keys_obj_insert keys_replace)

lemma distinct_obj_assign: "distinct (map fst obj) \<Longrightarrow> distinct (map fst (obj_assign k v obj))"
  by (simp add: obj_assign_def distinct_obj_set)


lemma distinct_obj_spread:
  "distinct (map fst base) \<Longrightarrow> distinct (map fst (obj_spread base extra))"
  unfolding obj_spread_def
  by (induction extra arbitrary: base) (auto simp: distinct_obj_set)




section \<open>Evaluating the decoder on a concrete buffer\<close>

lemma unat_of_char: "unat (of_char c :: byte) = of_char c"
proof -
  have "unat (of_nat (of_char c) :: byte) = of_char c mod 256"
    by (simp add: unat_of_nat)
  then show ?thesis by (simp only: of_nat_of_char of_char_mod_256)
qed

lemma toString_bytes_of: "toString (bytes_of s) = s"
  by (simp add: toString_def bytes_of_def unat_of_char map_idI)

lemma length_bytes_of: "length (bytes_of s) = length s"
  by (simp add: bytes_of_def)

lemma drop_bytes_of: "drop n (bytes_of s) = bytes_of (drop n s)"
  by (simp add: bytes_of_def drop_map)

lemma take_bytes_of: "take n (bytes_of s) = bytes_of (take n s)"
  by (simp add: bytes_of_def take_map)

lemma uintLE_bytes_of:
  "uintLE (bytes_of []) = 0"
  "uintLE (bytes_of (c # cs)) = of_char c + 256 * uintLE (bytes_of cs)"
  by (simp_all add: bytes_of_def unat_of_char)

lemmas bytes_eval =
  toString_bytes_of length_bytes_of drop_bytes_of take_bytes_of uintLE_bytes_of

lemmas block_eval =
  getContentAtAddress_def readUIntLE_def subarray_def subarray_from_def andThen_def
  the_addressSize_def the_lengthFieldSize_def

lemmas object_eval =
  obj_set_def obj_assign_def obj_spread_def obj_delete_def js_in_def object_prototype_def
  index_before_def is_array_index_def is_digit_def digits_value_def digit_value_def

lemmas text_eval =
  extractKeyValue_def match_pair_def kv_char_def kv_step_def parseKeyValue_def
  extractNestedKeyValue_def nested_step_def main_sub_def
  parseInt_def parseIntOr_def String_def is_space_def is_hex_digit_def

lemmas layer_eval =
  extractLayerInfo_def layerInfo_def layer_dict_def match_layer_def match_dict_def
  not_brace_def dict_key_char_def dict_value_char_def

lemmas document_eval =
  parseBuffer_def parseSignature_def signature_test_def parseFooter_def footer_defaults_def
  as_values_def parseHeader_def header_defaults_def truthy_def get2_def parseLayer_def
  layer_defaults_def parsePage_def page_defaults_def page_typed_keys_def string_only_def
  parsePages_def parseCover_def parseKeyword_def keyword_defaults_def parseTitle_def
  title_defaults_def push_entry_def entries_step_def parseEntries_def parseKeywords_def
  parseTitles_def

section \<open>Block resolution\<close>

lemma readUIntLE_error: "readUIntLE buf off w = Inl e \<Longrightarrow> e = RangeError"
  by (auto simp: readUIntLE_def split: number.splits if_splits)

lemma getContentAtAddress_error: "getContentAtAddress buf a w = Inl e \<Longrightarrow> e = RangeError"
  by (auto simp: getContentAtAddress_def split: number.splits if_splits dest!: andThen_Inl readUIntLE_error)

lemma getContentAtAddress_zero: "getContentAtAddress buffer (Number 0) byteLength = Inr None"
  by (simp add: getContentAtAddress_def)

lemma getContentAtAddress_read:
  assumes "a \<noteq> 0" and "1 \<le> w" and "w \<le> 6" and "a + w \<le> length buffer"
  shows "getContentAtAddress buffer (Number (int a)) w =
           Inr (Some (take (uintLE (take w (drop a buffer))) (drop (a + w) buffer)))"
  using assms by (simp add: getContentAtAddress_def readUIntLE_def andThen_def subarray_def)

text \<open>
  C2, as amended. An offset of 0 resolves to \<^verbatim>\<open>null\<close> for every width. For a nonzero
  offset \<open>a\<close> and a width \<open>w\<close> that \<^verbatim>\<open>readUIntLE\<close> accepts (1 to 6 bytes), when the
  length field and the \<open>n\<close> bytes after it lie within the buffer, the result is exactly
  the \<open>n\<close> bytes that follow the length field, \<open>n\<close> being the little-endian value of
  the \<open>w\<close> bytes at \<open>a\<close>.
\<close>

theorem getContentAtAddress_exact:
  "getContentAtAddress buffer (Number 0) w0 = Inr None \<and>
   (a \<noteq> 0 \<and> 1 \<le> w \<and> w \<le> 6 \<and> n = uintLE (take w (drop a buffer)) \<and>
    a + w + n \<le> length buffer \<longrightarrow>
      getContentAtAddress buffer (Number (int a)) w = Inr (Some (take n (drop (a + w) buffer))) \<and>
      length (take n (drop (a + w) buffer)) = n)"
proof (intro conjI impI)
  show "getContentAtAddress buffer (Number 0) w0 = Inr None"
    by (rule getContentAtAddress_zero)
next
  assume h: "a \<noteq> 0 \<and> 1 \<le> w \<and> w \<le> 6 \<and> n = uintLE (take w (drop a buffer)) \<and>
    a + w + n \<le> length buffer"
  then have "a + w \<le> length buffer" by simp
  with h getContentAtAddress_read [of a w buffer]
  show "getContentAtAddress buffer (Number (int a)) w = Inr (Some (take n (drop (a + w) buffer)))"
    by simp
  from h have "n \<le> length buffer - (a + w)" by linarith
  then show "length (take n (drop (a + w) buffer)) = n" by simp
qed

theorem getContentAtAddress_exact_witness:
  "getContentAtAddress [9, 2, 0, 0, 0, 7, 8, 9 :: byte] (Number 0) 3 = Inr None \<and>
   uintLE (take 4 (drop 1 [9, 2, 0, 0, 0, 7, 8, 9 :: byte])) = 2 \<and>
   getContentAtAddress [9, 2, 0, 0, 0, 7, 8, 9 :: byte] (Number 1) 4 = Inr (Some [7, 8])"
  using getContentAtAddress_exact [of "[9, 2, 0, 0, 0, 7, 8, 9]" 3 1 4 2]
  by simp

text \<open>
  C2 as stated puts no bound on the width. With a width of 7 the length field (7 bytes
  at offset 1) and its content (0 bytes) lie within an 8-byte buffer, and the read
  throws instead of returning the empty content.
\<close>

theorem getContentAtAddress_width7_counterexample:
  "1 + 7 + uintLE (take 7 (drop 1 [0, 0, 0, 0, 0, 0, 0, 0 :: byte])) \<le> length [0, 0, 0, 0, 0, 0, 0, 0 :: byte] \<and>
   getContentAtAddress [0, 0, 0, 0, 0, 0, 0, 0] (Number 1) 7 = Inl RangeError"
  by (simp add: getContentAtAddress_def readUIntLE_def andThen_def)




section \<open>Tagged text\<close>

lemma kv_step_error: "kv_step acc kv = Inl e \<Longrightarrow> e = TypeError"
  by (auto simp: kv_step_def split: prod.splits if_splits option.splits kv_value.splits)

lemma extractKeyValue_error: "extractKeyValue s = Inl e \<Longrightarrow> e = TypeError"
  unfolding extractKeyValue_def by (rule reduceE_error [where f = kv_step]) (auto dest: kv_step_error)

lemma parseKeyValue_error: "parseKeyValue buf a w = Inl e \<Longrightarrow> e = RangeError \<or> e = TypeError"
  by (auto simp: parseKeyValue_def split: option.splits dest!: andThen_Inl getContentAtAddress_error extractKeyValue_error)




lemma values_of_snoc:
  "values_of K (seen @ [(k, v)]) = (if k = K then values_of K seen @ [v] else values_of K seen)"
  by (simp add: values_of_def)

lemma as_value_snoc:
  "as_value (vs @ [v]) =
     (case as_value vs of
        None \<Rightarrow> Some (Scalar v)
      | Some (Scalar s) \<Rightarrow> Some (Multi [s, v])
      | Some (Multi ws) \<Rightarrow> Some (Multi (ws @ [v])))"
proof (cases vs)
  case Nil
  then show ?thesis by (simp add: as_value_def)
next
  case (Cons a as)
  then show ?thesis
    by (cases as) (simp_all add: as_value_def split: list.splits)
qed

lemma kv_step_own:
  assumes "\<forall>K. map_of acc K = as_value (values_of K seen)" and "own_key (k, v)"
  shows "\<exists>acc'. kv_step acc (k, v) = Inr acc' \<and>
           (\<forall>K. map_of acc' K = as_value (values_of K (seen @ [(k, v)])))"
proof -
  from assms(2) have j: "js_in k acc = (map_of acc k \<noteq> None)"
    by (simp add: js_in_def own_key_def)
  from assms(1) have a: "map_of acc k = as_value (values_of k seen)" by simp
  show ?thesis
  proof (cases "as_value (values_of k seen)")
    case None
    with a j have "kv_step acc (k, v) = Inr (obj_set k (Scalar v) acc)"
      by (simp add: kv_step_def)
    moreover have "\<forall>K. map_of (obj_set k (Scalar v) acc) K = as_value (values_of K (seen @ [(k, v)]))"
      using assms(1) None by (simp add: map_of_obj_set values_of_snoc as_value_snoc)
    ultimately show ?thesis by blast
  next
    case (Some x)
    show ?thesis
    proof (cases x)
      case (Scalar s)
      with Some a j have "kv_step acc (k, v) = Inr (obj_set k (Multi [s, v]) acc)"
        by (simp add: kv_step_def)
      moreover have "\<forall>K. map_of (obj_set k (Multi [s, v]) acc) K = as_value (values_of K (seen @ [(k, v)]))"
        using assms(1) Some Scalar by (simp add: map_of_obj_set values_of_snoc as_value_snoc)
      ultimately show ?thesis by blast
    next
      case (Multi ws)
      with Some a j have "kv_step acc (k, v) = Inr (obj_set k (Multi (ws @ [v])) acc)"
        by (simp add: kv_step_def)
      moreover have "\<forall>K. map_of (obj_set k (Multi (ws @ [v])) acc) K = as_value (values_of K (seen @ [(k, v)]))"
        using assms(1) Some Multi by (simp add: map_of_obj_set values_of_snoc as_value_snoc)
      ultimately show ?thesis by blast
    qed
  qed
qed

lemma reduce_kv_own:
  assumes "\<forall>K. map_of acc K = as_value (values_of K seen)" and "list_all own_key pairs"
  shows "\<exists>r. reduceE kv_step acc pairs = Inr r \<and>
           (\<forall>K. map_of r K = as_value (values_of K (seen @ pairs)))"
  using assms
proof (induction pairs arbitrary: acc seen)
  case Nil
  then show ?case by simp
next
  case (Cons p pairs)
  obtain k v where p: "p = (k, v)" by (cases p)
  from Cons.prems p have "own_key (k, v)" and rest: "list_all own_key pairs" by simp_all
  from kv_step_own [OF Cons.prems(1) this(1)] obtain acc' where
    s: "kv_step acc (k, v) = Inr acc'" and
    i: "\<forall>K. map_of acc' K = as_value (values_of K (seen @ [(k, v)]))"
    by blast
  from Cons.IH [OF i rest] s p show ?case by (simp add: andThen_def)
qed

lemma values_of_none: "list_all own_key seen \<Longrightarrow> \<not> own_key (k, v) \<Longrightarrow> values_of k seen = []"
  by (auto simp: values_of_def own_key_def list_all_iff filter_empty_conv)

lemma reduce_kv_inherited:
  assumes "\<forall>K. map_of acc K = as_value (values_of K seen)" and "list_all own_key seen"
    and "\<not> list_all own_key pairs"
  shows "reduceE kv_step acc pairs = Inl TypeError"
  using assms
proof (induction pairs arbitrary: acc seen)
  case Nil
  then show ?case by simp
next
  case (Cons p pairs)
  obtain k v where p: "p = (k, v)" by (cases p)
  show ?case
  proof (cases "own_key (k, v)")
    case True
    from kv_step_own [OF Cons.prems(1) True] obtain acc' where
      s: "kv_step acc (k, v) = Inr acc'" and
      i: "\<forall>K. map_of acc' K = as_value (values_of K (seen @ [(k, v)]))"
      by blast
    from Cons.prems True p have "list_all own_key (seen @ [(k, v)])" "\<not> list_all own_key pairs"
      by simp_all
    from Cons.IH [OF i this] s p show ?thesis by (simp add: andThen_def)
  next
    case False
    with Cons.prems(1,2) have "map_of acc k = None"
      by (simp add: values_of_none as_value_def)
    moreover from False have "js_in k acc" by (simp add: js_in_def own_key_def)
    ultimately show ?thesis by (simp add: p kv_step_def andThen_def)
  qed
qed

text \<open>
  What \<^verbatim>\<open>extractKeyValue\<close> gives when no matched key is a name of \<^verbatim>\<open>Object.prototype\<close>:
  a key that matches once has its value as a scalar, a key that matches \<open>m > 1\<close> times
  has the list of its \<open>m\<close> values in the order of the text, and a key with no match is
  absent. One matched key that \<^verbatim>\<open>Object.prototype\<close> defines makes the whole call throw.
\<close>

lemma extractKeyValue_values:
  assumes "list_all own_key (matchAll_pairs content)"
  shows "\<exists>r. extractKeyValue content = Inr r \<and>
           (\<forall>K. map_of r K = as_value (values_of K (matchAll_pairs content)))"
proof -
  have "\<forall>K. map_of ([] :: kv_value object) K = as_value (values_of K [])"
    by (simp add: as_value_def values_of_def)
  from reduce_kv_own [OF this assms] show ?thesis
    by (simp add: extractKeyValue_def)
qed

lemma extractKeyValue_inherited:
  assumes "\<not> list_all own_key (matchAll_pairs content)"
  shows "extractKeyValue content = Inl TypeError"
proof -
  have "\<forall>K. map_of ([] :: kv_value object) K = as_value (values_of K [])"
    by (simp add: as_value_def values_of_def)
  from reduce_kv_inherited [OF this _ assms] show ?thesis
    by (simp add: extractKeyValue_def)
qed

text \<open>
  C3 at a key that \<^verbatim>\<open>Object.prototype\<close> defines. The key matches once, and the claim gives
  it the scalar \<^verbatim>\<open>x\<close>; \<^verbatim>\<open>key in acc\<close> holds for the empty accumulator, and the spread of
  the inherited function throws.
\<close>

theorem extractKeyValue_constructor:
  "matchAll_pairs ''<constructor:x>'' = [(''constructor'', ''x'')] \<and>
   extractKeyValue ''<constructor:x>'' = Inl TypeError"
  by (simp add: text_eval object_eval block_eval)

section \<open>Key grouping\<close>

lemma nested_step_error: "nested_step d ps data entry = Inl e \<Longrightarrow> e = PrototypeWrite"
  by (auto simp: nested_step_def split: prod.splits if_splits option.splits kv_value.splits)

lemma extractNestedKeyValue_error: "extractNestedKeyValue r d ps = Inl e \<Longrightarrow> e = PrototypeWrite"
  unfolding extractNestedKeyValue_def by (rule reduceE_error [where f = "nested_step d ps"]) (auto dest: nested_step_error)




lemma indexOf_first: "c \<notin> set g \<Longrightarrow> indexOf (g @ c # rest) [c] = Some (length g)"
  by (induction g) auto


lemma indexOf_Some:
  "indexOf key d = Some i \<Longrightarrow> i \<le> length key \<and> prefix d (drop i key)"
proof (induction key arbitrary: i)
  case Nil
  then show ?case by (simp split: if_splits)
next
  case (Cons c cs)
  then show ?case by (auto split: if_splits)
qed

lemma indexOf_None: "indexOf key d = None \<Longrightarrow> \<not> prefix d (drop i key)"
proof (induction key arbitrary: i)
  case Nil
  then show ?case by (simp split: if_splits)
next
  case (Cons c cs)
  then show ?case by (cases i) (auto split: if_splits)
qed

lemma main_sub_delimiter:
  "c \<notin> set g \<Longrightarrow> main_sub [c] ps (g @ c # rest) = Some (g, rest)"
  by (simp add: main_sub_def indexOf_first)

lemma main_sub_prefix:
  "indexOf key d = None \<Longrightarrow>
   main_sub d ps key = map_option (\<lambda>p. (p, drop (length p) key)) (find (\<lambda>p. prefix p key) ps)"
  by (simp add: main_sub_def split: option.splits)

lemma nested_step_list: "nested_step d ps data (key, Multi vs) = Inr data"
  by (simp add: nested_step_def)

lemma nested_step_neither: "main_sub d ps key = None \<Longrightarrow> nested_step d ps data (key, v) = Inr data"
  by (cases v) (simp_all add: nested_step_def)

lemma nested_step_group:
  assumes "main_sub d ps key = Some (main, sub)" and "main \<noteq> []" and "sub \<noteq> []"
    and "main \<notin> set object_prototype"
  shows "\<exists>data'. nested_step d ps data (key, Scalar v) = Inr data' \<and>
           (\<exists>inner. map_of data' main = Some inner \<and>
              (sub \<noteq> ''__proto__'' \<longrightarrow> map_of inner sub = Some v)) \<and>
           (\<forall>g. g \<noteq> main \<longrightarrow> map_of data' g = map_of data g)"
proof (cases "map_of data main")
  case None
  with assms have "nested_step d ps data (key, Scalar v) = Inr (obj_set main [(sub, v)] data)"
    by (simp add: nested_step_def js_in_def)
  then show ?thesis by (simp add: map_of_obj_set)
next
  case (Some inner)
  with assms have "nested_step d ps data (key, Scalar v) = Inr (obj_set main (obj_assign sub v inner) data)"
    by (simp add: nested_step_def js_in_def)
  then show ?thesis by (simp add: map_of_obj_set map_of_obj_assign)
qed









text \<open>
  C7 at a delimiter of two characters. The split takes the sub-key from index
  \<open>idx + 1\<close>, not from \<open>idx + delimiter.length\<close>: the sub-key of \<^verbatim>\<open>a__b\<close> under the
  delimiter \<^verbatim>\<open>__\<close> is \<^verbatim>\<open>_b\<close>, where the remainder after the delimiter is \<^verbatim>\<open>b\<close>.
\<close>

theorem extractNestedKeyValue_long_delimiter:
  "extractNestedKeyValue [(''a__b'', Scalar ''1'')] ''__'' [] = Inr [(''a'', [(''_b'', ''1'')])]"
  by (simp add: text_eval object_eval block_eval)

section \<open>Layer metadata\<close>

lemma map_of_assign_all:
  "k \<noteq> ''__proto__'' \<Longrightarrow>
   map_of (foldl (\<lambda>acc (key, val). obj_assign key val acc) acc ps) k =
     (case map_of (rev ps) k of Some v \<Rightarrow> Some v | None \<Rightarrow> map_of acc k)"
proof (induction ps arbitrary: acc)
  case Nil
  then show ?case by simp
next
  case (Cons p ps)
  obtain k' v' where p: "p = (k', v')" by (cases p)
  from Cons show ?case
    by (simp add: p map_of_obj_assign map_add_def split: option.splits)
qed

lemma layer_dict_raw: "k \<noteq> ''__proto__'' \<Longrightarrow> map_of (layer_dict g) k = raw_value g k"
  by (simp add: layer_dict_def raw_value_def map_of_assign_all split: option.splits)

lemma matchAll_layers_skip:
  "list_all not_brace sep \<Longrightarrow> matchAll_layers (sep @ rest) = matchAll_layers rest"
  by (induction sep) (auto simp: match_layer_def not_brace_def)

lemma match_layer_group:
  assumes "g \<noteq> []" and "list_all not_brace g"
  shows "match_layer (''{'' @ g @ ''}'' @ rest) = Some (g, rest)"
proof -
  from assms(2) have t: "takeWhile not_brace (g @ CHR ''}'' # rest) = g"
    by (simp add: takeWhile_append2 list_all_iff not_brace_def)
  from assms(2) have d: "dropWhile not_brace (g @ CHR ''}'' # rest) = CHR ''}'' # rest"
    by (simp add: dropWhile_append2 list_all_iff not_brace_def)
  from assms(1) t d show ?thesis by (simp add: match_layer_def)
qed

lemma matchAll_layers_group:
  assumes "g \<noteq> []" and "list_all not_brace g"
  shows "matchAll_layers (''{'' @ g @ ''}'' @ rest) = g # matchAll_layers rest"
  using match_layer_group [OF assms, of rest] by simp

lemma matchAll_layers_groups:
  assumes "list_all (\<lambda>(sep, g). list_all not_brace sep \<and> g \<noteq> [] \<and> list_all not_brace g) groups"
    and "list_all not_brace rest"
  shows "matchAll_layers (concat (map (\<lambda>(sep, g). sep @ ''{'' @ g @ ''}'') groups) @ rest) = map snd groups"
  using assms
proof (induction groups)
  case Nil
  then show ?case using matchAll_layers_skip [of rest "[]"] by simp
next
  case (Cons p groups)
  obtain sep g where p: "p = (sep, g)" by (cases p)
  from Cons.prems p have s: "list_all not_brace sep" and g: "g \<noteq> []" "list_all not_brace g"
    by simp_all
  let ?tail = "concat (map (\<lambda>(sep, g). sep @ ''{'' @ g @ ''}'') groups) @ rest"
  have "matchAll_layers (sep @ ''{'' @ g @ ''}'' @ ?tail) = matchAll_layers (''{'' @ g @ ''}'' @ ?tail)"
    using s by (rule matchAll_layers_skip)
  also have "\<dots> = g # matchAll_layers ?tail"
    using g by (rule matchAll_layers_group)
  finally show ?case using Cons p by simp
qed

text \<open>
  C6, as amended. A group is a match of the group pattern: an opening brace, one or more
  characters that are not braces, a closing brace. A text that is a sequence of such
  groups, with brace-free text between them, has exactly these groups as its matches, in
  order. For every text, \<^verbatim>\<open>extractLayerInfo\<close> gives one record per match, in order. In
  each record a field that the group does not have takes its default (\<^verbatim>\<open>layerId\<close> 0,
  \<^verbatim>\<open>name\<close> "Main layer"), a field that the group has takes its raw value (\<^verbatim>\<open>layerId\<close>
  through \<^verbatim>\<open>parseInt\<close>), and each of the seven booleans is true exactly when its raw
  value is the text \<^verbatim>\<open>true\<close>, so it is false when the field is missing.
\<close>

theorem extractLayerInfo_records:
  "(list_all (\<lambda>(sep, g). list_all not_brace sep \<and> g \<noteq> [] \<and> list_all not_brace g) groups \<and>
    list_all not_brace rest \<longrightarrow>
      matchAll_layers (concat (map (\<lambda>(sep, g). sep @ ''{'' @ g @ ''}'') groups) @ rest) = map snd groups) \<and>
   length (extractLayerInfo content) = length (matchAll_layers content) \<and>
   (\<forall>i < length (matchAll_layers content).
      (raw_value (matchAll_layers content ! i) ''layerId'' = None \<longrightarrow>
         layerId (extractLayerInfo content ! i) = Number 0) \<and>
      (\<forall>v. raw_value (matchAll_layers content ! i) ''layerId'' = Some v \<longrightarrow>
         layerId (extractLayerInfo content ! i) = parseInt v) \<and>
      (raw_value (matchAll_layers content ! i) ''name'' = None \<longrightarrow>
         name (extractLayerInfo content ! i) = ''Main layer'') \<and>
      (\<forall>v. raw_value (matchAll_layers content ! i) ''name'' = Some v \<longrightarrow>
         name (extractLayerInfo content ! i) = v) \<and>
      isBackgroundLayer (extractLayerInfo content ! i) =
        (raw_value (matchAll_layers content ! i) ''isBackgroundLayer'' = Some ''true'') \<and>
      isAllowAdd (extractLayerInfo content ! i) =
        (raw_value (matchAll_layers content ! i) ''isAllowAdd'' = Some ''true'') \<and>
      isCurrentLayer (extractLayerInfo content ! i) =
        (raw_value (matchAll_layers content ! i) ''isCurrentLayer'' = Some ''true'') \<and>
      isVisible (extractLayerInfo content ! i) =
        (raw_value (matchAll_layers content ! i) ''isVisible'' = Some ''true'') \<and>
      isDeleted (extractLayerInfo content ! i) =
        (raw_value (matchAll_layers content ! i) ''isDeleted'' = Some ''true'') \<and>
      isAllowUp (extractLayerInfo content ! i) =
        (raw_value (matchAll_layers content ! i) ''isAllowUp'' = Some ''true'') \<and>
      isAllowDown (extractLayerInfo content ! i) =
        (raw_value (matchAll_layers content ! i) ''isAllowDown'' = Some ''true''))"
proof -
  have groups: "list_all (\<lambda>(sep, g). list_all not_brace sep \<and> g \<noteq> [] \<and> list_all not_brace g) groups \<and>
    list_all not_brace rest \<longrightarrow>
      matchAll_layers (concat (map (\<lambda>(sep, g). sep @ ''{'' @ g @ ''}'') groups) @ rest) = map snd groups"
    using matchAll_layers_groups [of groups rest] by blast
  have len: "length (extractLayerInfo content) = length (matchAll_layers content)"
    by (simp add: extractLayerInfo_def)
  have "0" : "parseInt ''0'' = Number 0"
    by (simp add: parseInt_def is_space_def is_digit_def digits_value_def digit_value_def)
  have each: "\<And>i. i < length (matchAll_layers content) \<Longrightarrow>
      extractLayerInfo content ! i = layerInfo (layer_dict (matchAll_layers content ! i))"
    by (simp add: extractLayerInfo_def)
  show ?thesis
    by (intro conjI allI impI groups [rule_format] len)
      (simp_all add: each layerInfo_def layer_dict_raw "0")
qed

theorem extractLayerInfo_records_witness:
  \<open>matchAll_layers ''{"layerId"#"1","name"#"Background","isVisible"#"true"}'' =
     [''"layerId"#"1","name"#"Background","isVisible"#"true"''] \<and>
   length (extractLayerInfo ''{"layerId"#"1","name"#"Background","isVisible"#"true"}'') = 1 \<and>
   layerId (extractLayerInfo ''{"layerId"#"1","name"#"Background","isVisible"#"true"}'' ! 0) = Number 1 \<and>
   name (extractLayerInfo ''{"layerId"#"1","name"#"Background","isVisible"#"true"}'' ! 0) = ''Background'' \<and>
   isVisible (extractLayerInfo ''{"layerId"#"1","name"#"Background","isVisible"#"true"}'' ! 0) \<and>
   \<not> isBackgroundLayer (extractLayerInfo ''{"layerId"#"1","name"#"Background","isVisible"#"true"}'' ! 0) \<and>
   \<not> isDeleted (extractLayerInfo ''{"layerId"#"1","name"#"Background","isVisible"#"true"}'' ! 0)\<close>
proof -
  have g: \<open>matchAll_layers ''{"layerId"#"1","name"#"Background","isVisible"#"true"}'' =
     [''"layerId"#"1","name"#"Background","isVisible"#"true"'']\<close>
    using extractLayerInfo_records
      [of \<open>[([], ''"layerId"#"1","name"#"Background","isVisible"#"true"'')]\<close> "[]" "[]"]
    by (simp add: not_brace_def)
  have d: \<open>matchAll_dict ''"layerId"#"1","name"#"Background","isVisible"#"true"'' =
     [(''layerId'', ''1''), (''name'', ''Background''), (''isVisible'', ''true'')]\<close>
    by (simp add: match_dict_def dict_key_char_def dict_value_char_def)
  have one: "parseInt ''1'' = Number 1"
    by (simp add: parseInt_def is_space_def is_digit_def digits_value_def digit_value_def)
  show ?thesis
    using extractLayerInfo_records
      [of "[]" "[]" \<open>''{"layerId"#"1","name"#"Background","isVisible"#"true"}''\<close>]
    unfolding g raw_value_def
    by (simp add: d one del: matchAll_dict.simps)
qed

text \<open>
  C6 as stated gives every brace-delimited group one record. The group pattern wants a
  non-empty interior: the empty group \<^verbatim>\<open>{}\<close> is no match and gives no record, where the
  claim gives it the record of all defaults.
\<close>

theorem extractLayerInfo_empty_group_counterexample:
  "matchAll_layers ''{}'' = [] \<and> extractLayerInfo ''{}'' = []"
  by (simp add: extractLayerInfo_def match_layer_def)

section \<open>The stages of the decoder\<close>

lemma parseFooter_error: "parseFooter buf = Inl e \<Longrightarrow> e \<noteq> SignatureMismatch"
  by (auto simp: parseFooter_def dest!: andThen_Inl readUIntLE_error parseKeyValue_error extractNestedKeyValue_error)

lemma parseHeader_error: "parseHeader buf ft = Inl e \<Longrightarrow> e \<noteq> SignatureMismatch"
  by (auto simp: parseHeader_def Let_def dest!: andThen_Inl parseKeyValue_error)

lemma parseLayer_error: "parseLayer buf a = Inl e \<Longrightarrow> e \<noteq> SignatureMismatch"
  by (auto simp: parseLayer_def dest!: andThen_Inl parseKeyValue_error getContentAtAddress_error)

lemma string_only_error: "string_only v = Inl e \<Longrightarrow> e = TypeError"
  by (auto simp: string_only_def split: option.splits kv_value.splits)

lemma parsePage_error: "parsePage buf g idx = Inl e \<Longrightarrow> e \<noteq> SignatureMismatch"
  unfolding parsePage_def
  by (auto dest!: andThen_Inl parseKeyValue_error getContentAtAddress_error parseLayer_error string_only_error)

lemma parsePages_error: "parsePages buf ft = Inl e \<Longrightarrow> e \<noteq> SignatureMismatch"
proof -
  assume a: "parsePages buf ft = Inl e"
  show ?thesis
  proof (cases "map_of ft ''PAGE''")
    case None
    with a show ?thesis by (simp add: parsePages_def)
  next
    case (Some g)
    with a have "mapE (parsePage buf g) (sort (map fst g)) = Inl e"
      by (simp add: parsePages_def)
    then show ?thesis
      by (rule mapE_error [where f = "parsePage buf g", rotated]) (rule parsePage_error)
  qed
qed

lemma parseCover_error: "parseCover buf ft = Inl e \<Longrightarrow> e \<noteq> SignatureMismatch"
  by (auto simp: parseCover_def split: option.splits number.splits if_splits dest!: andThen_Inl getContentAtAddress_error)

lemma push_entry_error: "push_entry k x acc = Inl e \<Longrightarrow> e = TypeError"
  by (auto simp: push_entry_def split: option.splits)

lemma entries_step_error:
  assumes "\<And>a e. parseOne a = Inl e \<Longrightarrow> e \<noteq> SignatureMismatch"
  shows "entries_step parseOne acc kv = Inl e \<Longrightarrow> e \<noteq> SignatureMismatch"
proof -
  assume a: "entries_step parseOne acc kv = Inl e"
  obtain key v where kv: "kv = (key, v)" by (cases kv)
  show ?thesis
  proof (cases v)
    case (Scalar s)
    with a kv show ?thesis
      by (auto simp: entries_step_def Let_def dest!: andThen_Inl push_entry_error assms)
  next
    case (Multi vs)
    with a kv show ?thesis
      unfolding entries_step_def Let_def
      by (auto dest!: reduceE_error [where P = "\<lambda>e. e \<noteq> SignatureMismatch", rotated] andThen_Inl push_entry_error assms)
  qed
qed

lemma parseEntries_error:
  assumes "\<And>a e. parseOne a = Inl e \<Longrightarrow> e \<noteq> SignatureMismatch"
  shows "parseEntries parseOne ft g = Inl e \<Longrightarrow> e \<noteq> SignatureMismatch"
proof -
  assume a: "parseEntries parseOne ft g = Inl e"
  show ?thesis
  proof (cases "map_of ft g")
    case None
    with a show ?thesis by (simp add: parseEntries_def)
  next
    case (Some grp)
    with a have "reduceE (entries_step parseOne) [] grp = Inl e"
      by (simp add: parseEntries_def)
    then show ?thesis
      by (rule reduceE_error [where f = "entries_step parseOne", rotated])
        (rule entries_step_error [OF assms])
  qed
qed

lemma parseKeyword_error: "parseKeyword buf a = Inl e \<Longrightarrow> e \<noteq> SignatureMismatch"
  by (auto simp: parseKeyword_def dest!: andThen_Inl parseKeyValue_error getContentAtAddress_error)

lemma parseTitle_error: "parseTitle buf a = Inl e \<Longrightarrow> e \<noteq> SignatureMismatch"
  by (auto simp: parseTitle_def dest!: andThen_Inl parseKeyValue_error getContentAtAddress_error)

lemma parseKeywords_error: "parseKeywords buf ft = Inl e \<Longrightarrow> e \<noteq> SignatureMismatch"
  unfolding parseKeywords_def by (rule parseEntries_error [OF parseKeyword_error])

lemma parseTitles_error: "parseTitles buf ft = Inl e \<Longrightarrow> e \<noteq> SignatureMismatch"
  unfolding parseTitles_def by (rule parseEntries_error [OF parseTitle_error])

lemma length_toString: "length (toString b) = length b"
  by (simp add: toString_def)

lemma signature_test_iff:
  assumes "length content \<le> 24"
  shows "signature_test content =
           (\<exists>ds. length ds = 8 \<and> list_all is_digit ds \<and> content = ''noteSN_FILE_VER_'' @ ds)"
proof
  assume t: "signature_test content"
  then have p: "take 16 content = ''noteSN_FILE_VER_''"
    and l: "length (take 8 (drop 16 content)) = 8"
    and d: "list_all is_digit (take 8 (drop 16 content))"
    by (simp_all add: signature_test_def)
  from l assms have "length content = 24" by simp
  then have "take 8 (drop 16 content) = drop 16 content" by simp
  moreover have "content = take 16 content @ drop 16 content" by simp
  ultimately have "content = ''noteSN_FILE_VER_'' @ take 8 (drop 16 content)"
    using p by metis
  with l d show "\<exists>ds. length ds = 8 \<and> list_all is_digit ds \<and> content = ''noteSN_FILE_VER_'' @ ds"
    by blast
next
  assume "\<exists>ds. length ds = 8 \<and> list_all is_digit ds \<and> content = ''noteSN_FILE_VER_'' @ ds"
  then obtain ds where "length ds = 8" "list_all is_digit ds" "content = ''noteSN_FILE_VER_'' @ ds"
    by blast
  then show "signature_test content"
    by (simp add: signature_test_def)
qed

lemma parseSignature_cases:
  "parseSignature buffer = Inl SignatureMismatch \<or> parseSignature buffer = Inr (toString (take 24 buffer))"
  by (simp add: parseSignature_def subarray_def Let_def)

lemma parseSignature_iff:
  "(parseSignature buffer = Inl SignatureMismatch) =
     (\<not> (\<exists>ds. length ds = 8 \<and> list_all is_digit ds \<and>
            toString (take 24 buffer) = ''noteSN_FILE_VER_'' @ ds))"
proof -
  have st: "signature_test (toString (take 24 buffer)) =
      (\<exists>ds. length ds = 8 \<and> list_all is_digit ds \<and>
            toString (take 24 buffer) = ''noteSN_FILE_VER_'' @ ds)"
    by (rule signature_test_iff) (simp add: length_toString)
  have "(parseSignature buffer = Inl SignatureMismatch) =
      (\<not> signature_test (toString (take 24 buffer)))"
    by (simp add: parseSignature_def subarray_def Let_def)
  then show ?thesis by (simp only: st)
qed

lemma parseBuffer_first_failure:
  assumes "parseBuffer buffer = Inl e"
  shows "parseSignature buffer = Inl e \<or>
    (\<exists>sig. parseSignature buffer = Inr sig \<and>
     (parseFooter buffer = Inl e \<or>
      (\<exists>ft. parseFooter buffer = Inr ft \<and>
       (parseHeader buffer ft = Inl e \<or>
        (\<exists>hdr. parseHeader buffer ft = Inr hdr \<and>
         (parsePages buffer ft = Inl e \<or>
          (\<exists>pgs. parsePages buffer ft = Inr pgs \<and>
           (parseCover buffer ft = Inl e \<or>
            (\<exists>cv. parseCover buffer ft = Inr cv \<and>
             (parseKeywords buffer ft = Inl e \<or>
              (\<exists>kws. parseKeywords buffer ft = Inr kws \<and>
               (parseTitles buffer ft = Inl e))))))))))))"
  using assms unfolding parseBuffer_def
  by (auto dest!: andThen_Inl)


lemma parseBuffer_mismatch:
  "(parseBuffer buffer = Inl SignatureMismatch) = (parseSignature buffer = Inl SignatureMismatch)"
proof
  assume "parseBuffer buffer = Inl SignatureMismatch"
  from parseBuffer_first_failure [OF this] show "parseSignature buffer = Inl SignatureMismatch"
    by (auto dest: parseFooter_error parseHeader_error parsePages_error parseCover_error
        parseKeywords_error parseTitles_error)
next
  assume "parseSignature buffer = Inl SignatureMismatch"
  then show "parseBuffer buffer = Inl SignatureMismatch"
    by (simp add: parseBuffer_def andThen_def)
qed

section \<open>The signature and the decode as a whole\<close>

text \<open>
  C8. Decoding throws SignatureMismatch exactly when the first 24 bytes, read as text, are
  not \<^verbatim>\<open>noteSN_FILE_VER_\<close> followed by 8 digits. The result is then the exception, so
  no document is produced; no later stage throws this exception.
\<close>

theorem parseBuffer_SignatureMismatch_iff:
  "(parseBuffer buffer = Inl SignatureMismatch) =
     (\<not> (\<exists>ds. length ds = 8 \<and> list_all is_digit ds \<and>
            toString (take 24 buffer) = ''noteSN_FILE_VER_'' @ ds))"
  by (simp only: parseBuffer_mismatch parseSignature_iff)

theorem parseBuffer_SignatureMismatch_iff_witness:
  "parseBuffer (bytes_of ''noteSN_FILE_VER_2023'') = Inl SignatureMismatch \<and>
   parseBuffer (bytes_of (''noteSN_FILE_VER_20230101'' @ [CHR 0x00, CHR 0x00, CHR 0x00, CHR 0x00]))
     \<noteq> Inl SignatureMismatch"
  using parseBuffer_SignatureMismatch_iff [of "bytes_of ''noteSN_FILE_VER_2023''"]
    parseBuffer_SignatureMismatch_iff
      [of "bytes_of (''noteSN_FILE_VER_20230101'' @ [CHR 0x00, CHR 0x00, CHR 0x00, CHR 0x00])"]
  by (simp add: bytes_eval is_digit_def)




section \<open>Default values\<close>








lemma parsePage_needs_layer_fields:
  assumes "parsePage buffer pageGroup idx = Inr pg"
  shows "\<exists>data info seq. parseKeyValue buffer (parseInt (String (map_of pageGroup idx))) 4 = Inr data \<and>
           map_of data ''LAYERINFO'' = Some (Scalar info) \<and>
           map_of data ''LAYERSEQ'' = Some (Scalar seq)"
proof -
  from assms obtain data info seq where
    "parseKeyValue buffer (parseInt (String (map_of pageGroup idx))) 4 = Inr data"
    "string_only (map_of data ''LAYERINFO'') = Inr info"
    "string_only (map_of data ''LAYERSEQ'') = Inr seq"
    unfolding parsePage_def the_lengthFieldSize_def by (auto dest!: andThen_Inr)
  then show ?thesis
    by (auto simp: string_only_def split: option.splits kv_value.splits)
qed









text \<open>
  The page fields \<^verbatim>\<open>LAYERINFO\<close> and \<^verbatim>\<open>LAYERSEQ\<close> have no default: a page is built only
  from a block that has both as strings, and a block without \<^verbatim>\<open>LAYERINFO\<close> ends in a
  TypeError. The statement above says nothing about the two.
\<close>

lemma page_without_layerinfo:
  "parsePage (bytes_of (''x'' @ [CHR 0x0C, CHR 0x00, CHR 0x00, CHR 0x00] @ ''<LAYERSEQ:a>''))
     [(''1'', Scalar ''1'')] ''1'' = Inl TypeError"
  by (simp add: document_eval block_eval text_eval object_eval bytes_eval)

section \<open>Keyword and title entries\<close>

lemma parseTitle_entry:
  assumes "parseTitle buffer address = Inr t"
  shows "\<exists>data. parseKeyValue buffer address 4 = Inr data \<and>
           props t = obj_delete ''bitmapBuffer'' (obj_spread title_defaults data) \<and>
           getContentAtAddress buffer (parseIntOr (map_of data ''TITLEBITMAP'') ''0'') 4 =
             Inr (bitmapBuffer t)"
  using assms by (auto simp: parseTitle_def the_lengthFieldSize_def dest!: andThen_Inr)

lemma parseKeyword_entry:
  assumes "parseKeyword buffer address = Inr kw"
  shows "\<exists>data. parseKeyValue buffer address 4 = Inr data \<and>
           props kw = keyword_defaults \<and>
           getContentAtAddress buffer (parseIntOr (map_of data ''KEYWORDSITE'') ''0'') 4 =
             Inr (bitmapBuffer kw)"
  using assms by (auto simp: parseKeyword_def the_lengthFieldSize_def dest!: andThen_Inr)

text \<open>
  C4 at a file with one keyword. The keyword block at offset 28 says
  \<^verbatim>\<open><KEYWORDPAGE:3>\<close>; the entry of the decoded document has the default
  \<^verbatim>\<open>KEYWORDPAGE\<close> of 1: \<^verbatim>\<open>_parseKeyword\<close> does not merge the extracted text, as
  \<^verbatim>\<open>_parseTitle\<close> does.
\<close>

theorem parseKeyword_ignores_text:
  "parseKeyValue keyword_file (Number 28) 4 = Inr [(''KEYWORDPAGE'', Scalar ''3'')] \<and>
   map_sum id keywords' (parseBuffer keyword_file) =
     Inr [(''5'', [\<lparr> props = keyword_defaults, bitmapBuffer = None \<rparr>])] \<and>
   map_of keyword_defaults ''KEYWORDPAGE'' = Some (Scalar ''1'')"
  by (simp add: keyword_file_def document_eval block_eval text_eval object_eval bytes_eval)

end
